theory Spec2Isabelle
  imports Complex_Main "HOL-Library.Word"
begin

section \<open>Cohort identifier: the classification engine of the analysis module\<close>

text \<open>
  The development embeds the analysis module that works on the single unified
  repository table: the configuration constant \<open>CONFIG\<close>, the normalisation helpers
  \<open>isArchived\<close>, \<open>toNumber\<close> and \<open>toBoolean\<close>, the weight calculator, the reason
  generator, the cohort classifier, the summary sentence, the feature-flag record, the
  per-record pipeline and the cohort aggregation. The detailed variant of the pipeline,
  the per-enterprise aggregation and the CSV export are not embedded.

  Conventions of the embedding:
  \<^item> a JavaScript string is the list of its UTF-16 code units, each a 16-bit word
    (\<open>jsString\<close>); a string literal of the source, which is ASCII throughout, is
    written through \<open>utf16\<close>; string equality \<open>===\<close> is equality of the lists;
  \<^item> a JavaScript number that holds a count or a weight is an \<open>int\<close>; a mean is a
    \<open>rat\<close>, the exact quotient of the double the source computes;
  \<^item> the module constant \<open>CONFIG\<close> is passed to every function that reads it, as its
    first argument \<open>cfg\<close>; the program is the instance at \<open>CONFIG\<close>.
\<close>

subsection \<open>Strings\<close>

type_synonym codeUnit = "16 word"

type_synonym jsString = "codeUnit list"

text \<open>The code unit of an ASCII character, and the code units of an ASCII literal.\<close>

definition cu :: "char \<Rightarrow> codeUnit" where
  "cu c = of_nat (of_char c)"

definition utf16 :: "string \<Rightarrow> jsString" where
  "utf16 s = map cu s"

subsection \<open>Data model\<close>

text \<open>
  The input row (interface \<open>RepositoryAnalysis\<close>), with the fields the analysis reads.
  Every field is a string. The field \<open>isArchived\<close> is named \<open>isArchived_field\<close>, the
  name \<open>isArchived\<close> being the function's.
\<close>

record RepositoryAnalysis =
  Enterprise :: jsString
  Org_Name :: jsString
  Repo_Name :: jsString
  isArchived_field :: jsString
  has_external_collaborators :: jsString
  issues_linked_to_projects :: jsString
  projects_linked_to_repo :: jsString
  app_installations :: jsString
  repository_custom_properties :: jsString
  repository_rulesets :: jsString
  repository_webhooks :: jsString
  repository_packages :: jsString
  repository_releases_gt_5gb :: jsString
  repository_environments :: jsString
  git_lfs_objects :: jsString
  repository_actions_secrets :: jsString
  repository_actions_self_hosted_runners :: jsString
  repository_dependabot_secrets :: jsString
  repository_discussions :: jsString
  repository_deploy_keys :: jsString
  repository_pages_customdomain :: jsString
  has_unmigratable :: jsString
  has_maven_packages :: jsString
  maven_package_count :: jsString
  has_codespaces :: jsString
  codespace_count :: jsString
  codespace_user_count :: jsString
  has_macos_runners :: jsString

record weights =
  APP_INSTALLATIONS :: int
  GIT_LFS_OBJECTS :: int
  PACKAGES :: int
  PROJECTS :: int
  CUSTOM_PROPERTIES :: int
  RULESETS :: int
  SECRETS :: int
  ENVIRONMENTS :: int
  SELF_HOSTED_RUNNERS :: int
  WEBHOOKS :: int
  DISCUSSIONS :: int
  DEPLOY_KEYS :: int
  PAGES_CUSTOM_DOMAIN :: int
  RELEASES_LARGE :: int
  CODESPACES :: int
  MAVEN_PACKAGES :: int
  MACOS_RUNNERS :: int
  IS_ARCHIVED :: int
  EXTERNAL_COLLABORATORS :: int
  UNMIGRATABLE :: int

record thresholds =
  CLEAN_REPO_MAX_WEIGHT :: int
  LOW_COMPLEXITY_MAX_WEIGHT :: int
  MEDIUM_COMPLEXITY_MAX_WEIGHT :: int

record features =
  INCLUDE_ARCHIVED_IN_MAIN_ANALYSIS :: bool
  SEPARATE_MAVEN_COHORT :: bool
  SEPARATE_CODESPACE_COHORT :: bool
  SEPARATE_MACOS_COHORT :: bool
  SEPARATE_UNMIGRATABLE_COHORT :: bool

record config =
  WEIGHTS :: weights
  THRESHOLDS :: thresholds
  FEATURES :: features

definition CONFIG :: config where
  "CONFIG =
     \<lparr> WEIGHTS =
         \<lparr> APP_INSTALLATIONS = 15, GIT_LFS_OBJECTS = 2, PACKAGES = 3, PROJECTS = 3,
           CUSTOM_PROPERTIES = 2, RULESETS = 3, SECRETS = 12, ENVIRONMENTS = 3,
           SELF_HOSTED_RUNNERS = 12, WEBHOOKS = 10, DISCUSSIONS = 2, DEPLOY_KEYS = 8,
           PAGES_CUSTOM_DOMAIN = 2, RELEASES_LARGE = 7, CODESPACES = 25,
           MAVEN_PACKAGES = 25, MACOS_RUNNERS = 25, IS_ARCHIVED = 1,
           EXTERNAL_COLLABORATORS = 12, UNMIGRATABLE = 30 \<rparr>,
       THRESHOLDS =
         \<lparr> CLEAN_REPO_MAX_WEIGHT = 0, LOW_COMPLEXITY_MAX_WEIGHT = 10,
           MEDIUM_COMPLEXITY_MAX_WEIGHT = 25 \<rparr>,
       FEATURES =
         \<lparr> INCLUDE_ARCHIVED_IN_MAIN_ANALYSIS = False, SEPARATE_MAVEN_COHORT = True,
           SEPARATE_CODESPACE_COHORT = True, SEPARATE_MACOS_COHORT = True,
           SEPARATE_UNMIGRATABLE_COHORT = False \<rparr> \<rparr>"

subsection \<open>Normalisation of string fields\<close>

definition isArchived :: "RepositoryAnalysis \<Rightarrow> bool" where
  "isArchived repo \<longleftrightarrow>
     isArchived_field repo = utf16 ''true'' \<or> isArchived_field repo = utf16 ''TRUE'' \<or>
     isArchived_field repo = utf16 ''1''"

text \<open>
  The white space that \<open>String.prototype.trim\<close> and \<open>parseInt\<close> skip: the
  \<open>WhiteSpace\<close> and \<open>LineTerminator\<close> code points of ECMAScript, which are tab
  (U+0009), vertical tab (U+000B), form feed (U+000C), the byte order mark (U+FEFF), the
  space separators of Unicode (U+0020, U+00A0, U+1680, U+2000 to U+200A, U+202F, U+205F,
  U+3000), line feed (U+000A), carriage return (U+000D), and the line and paragraph
  separators (U+2028, U+2029). Each is one code unit.
\<close>

definition isWhiteSpace :: "codeUnit \<Rightarrow> bool" where
  "isWhiteSpace c \<longleftrightarrow>
     c = 0x0009 \<or> c = 0x000B \<or> c = 0x000C \<or> c = 0xFEFF \<or>
     c = 0x0020 \<or> c = 0x00A0 \<or> c = 0x1680 \<or> (0x2000 \<le> c \<and> c \<le> 0x200A) \<or>
     c = 0x202F \<or> c = 0x205F \<or> c = 0x3000 \<or>
     c = 0x000A \<or> c = 0x000D \<or> c = 0x2028 \<or> c = 0x2029"

definition trim :: "jsString \<Rightarrow> jsString" where
  "trim s = rev (dropWhile isWhiteSpace (rev (dropWhile isWhiteSpace s)))"

definition isDigit :: "codeUnit \<Rightarrow> bool" where
  "isDigit c \<longleftrightarrow> 0x0030 \<le> c \<and> c \<le> 0x0039"

definition digitValue :: "codeUnit \<Rightarrow> int" where
  "digitValue c = uint c - 0x0030"

definition digitsValue :: "jsString \<Rightarrow> int" where
  "digitsValue ds = foldl (\<lambda>acc c. 10 * acc + digitValue c) 0 ds"

text \<open>
  The built-in \<open>parseInt(value, 10)\<close>: leading white space is skipped, one sign is
  read, then the longest run of decimal digits; with no digit the result is \<open>NaN\<close>,
  here \<open>None\<close>. The program only compares the result with zero, so the rounding of a
  very long digit run to a double, which keeps the sign, is not modelled.
\<close>

definition parseInt :: "jsString \<Rightarrow> int option" where
  "parseInt s =
     (let t = dropWhile isWhiteSpace s;
          neg = (t \<noteq> [] \<and> hd t = cu (CHR ''-''));
          u = (if t \<noteq> [] \<and> (hd t = cu (CHR ''-'') \<or> hd t = cu (CHR ''+''))
               then tl t else t);
          ds = takeWhile isDigit u
      in if ds = [] then None
         else Some (if neg then - digitsValue ds else digitsValue ds))"

definition toNumber :: "jsString \<Rightarrow> int" where
  "toNumber v =
     (if v = [] \<or> trim v = [] \<or> v = utf16 ''null'' \<or> v = utf16 ''undefined'' then 0
      else case parseInt v of None \<Rightarrow> 0 | Some num \<Rightarrow> num)"

definition toBoolean :: "jsString \<Rightarrow> bool" where
  "toBoolean v \<longleftrightarrow>
     v = utf16 ''true'' \<or> v = utf16 ''TRUE'' \<or> v = utf16 ''1'' \<or> v = utf16 ''yes'' \<or>
     v = utf16 ''YES''"

subsection \<open>Weight calculator\<close>

text \<open>
  The running total \<open>weight\<close> starts at zero; each \<open>if\<close> of the source adds one
  configured weight. The steps are listed in the source's order.
\<close>

definition calculateMigrationWeight :: "config \<Rightarrow> RepositoryAnalysis \<Rightarrow> int" where
  "calculateMigrationWeight cfg repo =
     (let w = WEIGHTS cfg;
          weight = 0;
          weight = (if toNumber (app_installations repo) > 0
                    then weight + APP_INSTALLATIONS w else weight);
          weight = (if toNumber (git_lfs_objects repo) > 0
                    then weight + GIT_LFS_OBJECTS w else weight);
          weight = (if toNumber (repository_packages repo) > 0
                    then weight + PACKAGES w else weight);
          weight = (if toNumber (projects_linked_to_repo repo) > 0 \<or>
                       toNumber (issues_linked_to_projects repo) > 0
                    then weight + PROJECTS w else weight);
          weight = (if toNumber (repository_custom_properties repo) > 0
                    then weight + CUSTOM_PROPERTIES w else weight);
          weight = (if toNumber (repository_rulesets repo) > 0
                    then weight + RULESETS w else weight);
          weight = (if toNumber (repository_actions_secrets repo) > 0 \<or>
                       toNumber (repository_dependabot_secrets repo) > 0
                    then weight + SECRETS w else weight);
          weight = (if toNumber (repository_environments repo) > 0
                    then weight + ENVIRONMENTS w else weight);
          weight = (if toNumber (repository_actions_self_hosted_runners repo) > 0
                    then weight + SELF_HOSTED_RUNNERS w else weight);
          weight = (if toNumber (repository_webhooks repo) > 0
                    then weight + WEBHOOKS w else weight);
          weight = (if toNumber (repository_discussions repo) > 0
                    then weight + DISCUSSIONS w else weight);
          weight = (if toNumber (repository_deploy_keys repo) > 0
                    then weight + DEPLOY_KEYS w else weight);
          weight = (if toNumber (repository_pages_customdomain repo) > 0
                    then weight + PAGES_CUSTOM_DOMAIN w else weight);
          weight = (if toNumber (repository_releases_gt_5gb repo) > 0
                    then weight + RELEASES_LARGE w else weight);
          weight = (if isArchived repo then weight + IS_ARCHIVED w else weight);
          weight = (if toBoolean (has_external_collaborators repo)
                    then weight + EXTERNAL_COLLABORATORS w else weight);
          weight = (if toBoolean (has_unmigratable repo)
                    then weight + UNMIGRATABLE w else weight)
      in weight)"

subsection \<open>Reason generator\<close>

text \<open>
  The array \<open>reasons\<close> starts empty; each \<open>if\<close> of the source pushes one string, built
  from the raw field values.
\<close>

definition getMigrationReasons :: "RepositoryAnalysis \<Rightarrow> jsString list" where
  "getMigrationReasons repo =
     (let reasons = [];
          reasons = (if toNumber (app_installations repo) > 0
                     then reasons @ [utf16 ''App installations ('' @ app_installations repo @ utf16 '')'']
                     else reasons);
          reasons = (if toNumber (git_lfs_objects repo) > 0
                     then reasons @ [utf16 ''Git LFS objects ('' @ git_lfs_objects repo @ utf16 '')'']
                     else reasons);
          reasons = (if toNumber (repository_packages repo) > 0
                     then reasons @ [utf16 ''Repository packages ('' @ repository_packages repo @ utf16 '')'']
                     else reasons);
          reasons = (if toNumber (projects_linked_to_repo repo) > 0 \<or>
                        toNumber (issues_linked_to_projects repo) > 0
                     then reasons @ [utf16 ''Projects linked (repo: '' @ projects_linked_to_repo repo @
                                     (utf16 '', issues: '') @ issues_linked_to_projects repo @ utf16 '')'']
                     else reasons);
          reasons = (if toNumber (repository_custom_properties repo) > 0
                     then reasons @ [utf16 ''Custom properties ('' @ repository_custom_properties repo @ utf16 '')'']
                     else reasons);
          reasons = (if toNumber (repository_rulesets repo) > 0
                     then reasons @ [utf16 ''Rulesets ('' @ repository_rulesets repo @ utf16 '')'']
                     else reasons);
          reasons = (if toNumber (repository_actions_secrets repo) > 0 \<or>
                        toNumber (repository_dependabot_secrets repo) > 0
                     then reasons @ [utf16 ''Secrets (Actions: '' @ repository_actions_secrets repo @
                                     (utf16 '', Dependabot: '') @ repository_dependabot_secrets repo @ utf16 '')'']
                     else reasons);
          reasons = (if toNumber (repository_environments repo) > 0
                     then reasons @ [utf16 ''Environments ('' @ repository_environments repo @ utf16 '')'']
                     else reasons);
          reasons = (if toNumber (repository_actions_self_hosted_runners repo) > 0
                     then reasons @ [utf16 ''Self-hosted runners ('' @
                                     repository_actions_self_hosted_runners repo @ utf16 '')'']
                     else reasons);
          reasons = (if toNumber (repository_webhooks repo) > 0
                     then reasons @ [utf16 ''Webhooks ('' @ repository_webhooks repo @ utf16 '')'']
                     else reasons);
          reasons = (if toNumber (repository_discussions repo) > 0
                     then reasons @ [utf16 ''Discussions ('' @ repository_discussions repo @ utf16 '')'']
                     else reasons);
          reasons = (if toNumber (repository_deploy_keys repo) > 0
                     then reasons @ [utf16 ''Deploy keys ('' @ repository_deploy_keys repo @ utf16 '')'']
                     else reasons);
          reasons = (if toNumber (repository_pages_customdomain repo) > 0
                     then reasons @ [utf16 ''Pages custom domain ('' @
                                     repository_pages_customdomain repo @ utf16 '')'']
                     else reasons);
          reasons = (if toNumber (repository_releases_gt_5gb repo) > 0
                     then reasons @ [utf16 ''Large releases ('' @ repository_releases_gt_5gb repo @ utf16 '')'']
                     else reasons);
          reasons = (if toBoolean (has_maven_packages repo)
                     then reasons @ [utf16 ''Maven packages ('' @ maven_package_count repo @ utf16 '')'']
                     else reasons);
          reasons = (if toBoolean (has_codespaces repo)
                     then reasons @ [utf16 ''Codespaces ('' @ codespace_count repo @ utf16 '' codespaces, '' @
                                     codespace_user_count repo @ utf16 '' users)'']
                     else reasons);
          reasons = (if toBoolean (has_macos_runners repo)
                     then reasons @ [utf16 ''macOS runners''] else reasons);
          reasons = (if toBoolean (has_external_collaborators repo)
                     then reasons @ [utf16 ''External collaborators''] else reasons);
          reasons = (if toBoolean (has_unmigratable repo)
                     then reasons @ [utf16 ''Unmigratable features''] else reasons);
          reasons = (if isArchived repo
                     then reasons @ [utf16 ''Archived repository''] else reasons)
      in reasons)"

subsection \<open>Cohort classifier\<close>

text \<open>The decision list: the first test that holds returns its label.\<close>

definition assignCohort :: "config \<Rightarrow> RepositoryAnalysis \<Rightarrow> int \<Rightarrow> jsString" where
  "assignCohort cfg repo migrationWeight =
     (if SEPARATE_UNMIGRATABLE_COHORT (FEATURES cfg) \<and> toBoolean (has_unmigratable repo)
      then utf16 ''UNMIGRATABLE''
      else if isArchived repo then utf16 ''ARCHIVED''
      else if SEPARATE_MACOS_COHORT (FEATURES cfg) \<and> toBoolean (has_macos_runners repo)
      then utf16 ''MACOS_RUNNERS''
      else if SEPARATE_MAVEN_COHORT (FEATURES cfg) \<and> toBoolean (has_maven_packages repo)
      then utf16 ''MAVEN_PACKAGES''
      else if SEPARATE_CODESPACE_COHORT (FEATURES cfg) \<and> toBoolean (has_codespaces repo)
      then utf16 ''CODESPACES''
      else if migrationWeight \<le> CLEAN_REPO_MAX_WEIGHT (THRESHOLDS cfg) then utf16 ''CLEAN''
      else if migrationWeight \<le> LOW_COMPLEXITY_MAX_WEIGHT (THRESHOLDS cfg)
      then utf16 ''LOW_COMPLEXITY''
      else if migrationWeight \<le> MEDIUM_COMPLEXITY_MAX_WEIGHT (THRESHOLDS cfg)
      then utf16 ''MEDIUM_COMPLEXITY''
      else utf16 ''HIGH_COMPLEXITY'')"

subsection \<open>Summary sentence\<close>

text \<open>Decimal rendering of a number inside a template string.\<close>

fun showNat :: "nat \<Rightarrow> jsString" where
  "showNat n =
     (if n < 10 then [of_nat (48 + n)]
      else showNat (n div 10) @ [of_nat (48 + n mod 10)])"

declare showNat.simps [simp del]

definition showInt :: "int \<Rightarrow> jsString" where
  "showInt i = (if i < 0 then cu (CHR ''-'') # showNat (nat (- i)) else showNat (nat i))"

definition generateSummary :: "jsString \<Rightarrow> jsString list \<Rightarrow> int \<Rightarrow> jsString" where
  "generateSummary cohort reasons weight =
     (if cohort = utf16 ''UNMIGRATABLE''
      then utf16 ''Repository has features that cannot be migrated - requires special handling''
      else if cohort = utf16 ''ARCHIVED''
      then utf16 ''Archived repository - lower migration priority''
      else if cohort = utf16 ''CLEAN''
      then utf16 ''Clean repository with no migration blockers - can migrate easily''
      else if cohort = utf16 ''MACOS_RUNNERS''
      then utf16 ''Repository with macOS runners - requires runner migration planning''
      else if cohort = utf16 ''MAVEN_PACKAGES''
      then utf16 ''Repository with Maven packages - requires package migration planning''
      else if cohort = utf16 ''CODESPACES''
      then utf16 ''Repository with Codespaces usage - requires Codespaces migration planning''
      else if cohort = utf16 ''LOW_COMPLEXITY''
      then utf16 ''Low complexity migration (weight: '' @ showInt weight @ utf16 '') - '' @
           showNat (length reasons) @ utf16 '' minor issues''
      else if cohort = utf16 ''MEDIUM_COMPLEXITY''
      then utf16 ''Medium complexity migration (weight: '' @ showInt weight @ utf16 '') - '' @
           showNat (length reasons) @ utf16 '' moderate issues''
      else if cohort = utf16 ''HIGH_COMPLEXITY''
      then utf16 ''High complexity migration (weight: '' @ showInt weight @ utf16 '') - '' @
           showNat (length reasons) @ utf16 '' major issues''
      else utf16 ''Migration weight: '' @ showInt weight)"

subsection \<open>Feature-flag record\<close>

record featureFlags =
  HAS_APP_INSTALLATIONS :: bool
  HAS_GIT_LFS_OBJECTS :: bool
  HAS_PACKAGES :: bool
  HAS_PROJECTS :: bool
  HAS_CUSTOM_PROPERTIES :: bool
  HAS_RULESETS :: bool
  HAS_SECRETS :: bool
  HAS_ENVIRONMENTS :: bool
  HAS_SELF_HOSTED_RUNNERS :: bool
  HAS_WEBHOOKS :: bool
  HAS_DISCUSSIONS :: bool
  HAS_DEPLOY_KEYS :: bool
  HAS_PAGES_CUSTOM_DOMAIN :: bool
  HAS_RELEASES_LARGE :: bool
  HAS_CODESPACES :: bool
  HAS_MAVEN_PACKAGES :: bool
  HAS_MACOS_RUNNERS :: bool
  HAS_IS_ARCHIVED :: bool
  HAS_EXTERNAL_COLLABORATORS :: bool
  HAS_UNMIGRATABLE :: bool

definition hasFeatureFlags :: "RepositoryAnalysis \<Rightarrow> featureFlags" where
  "hasFeatureFlags repo =
     \<lparr> HAS_APP_INSTALLATIONS = toNumber (app_installations repo) > 0,
       HAS_GIT_LFS_OBJECTS = toNumber (git_lfs_objects repo) > 0,
       HAS_PACKAGES = toNumber (repository_packages repo) > 0,
       HAS_PROJECTS = (toNumber (projects_linked_to_repo repo) > 0 \<or>
                       toNumber (issues_linked_to_projects repo) > 0),
       HAS_CUSTOM_PROPERTIES = toNumber (repository_custom_properties repo) > 0,
       HAS_RULESETS = toNumber (repository_rulesets repo) > 0,
       HAS_SECRETS = (toNumber (repository_actions_secrets repo) > 0 \<or>
                      toNumber (repository_dependabot_secrets repo) > 0),
       HAS_ENVIRONMENTS = toNumber (repository_environments repo) > 0,
       HAS_SELF_HOSTED_RUNNERS = toNumber (repository_actions_self_hosted_runners repo) > 0,
       HAS_WEBHOOKS = toNumber (repository_webhooks repo) > 0,
       HAS_DISCUSSIONS = toNumber (repository_discussions repo) > 0,
       HAS_DEPLOY_KEYS = toNumber (repository_deploy_keys repo) > 0,
       HAS_PAGES_CUSTOM_DOMAIN = toNumber (repository_pages_customdomain repo) > 0,
       HAS_RELEASES_LARGE = toNumber (repository_releases_gt_5gb repo) > 0,
       HAS_CODESPACES = toBoolean (has_codespaces repo),
       HAS_MAVEN_PACKAGES = toBoolean (has_maven_packages repo),
       HAS_MACOS_RUNNERS = toBoolean (has_macos_runners repo),
       HAS_IS_ARCHIVED = isArchived repo,
       HAS_EXTERNAL_COLLABORATORS = toBoolean (has_external_collaborators repo),
       HAS_UNMIGRATABLE = toBoolean (has_unmigratable repo) \<rparr>"

subsection \<open>Per-record pipeline\<close>

text \<open>
  The result row (interface \<open>CohortResult\<close>); its field \<open>isArchived\<close> is named
  \<open>isArchived_flag\<close>.
\<close>

record CohortResult =
  repoName :: jsString
  orgName :: jsString
  enterpriseName :: jsString
  cohort :: jsString
  migrationWeight :: int
  reasons :: "jsString list"
  summary :: jsString
  isArchived_flag :: bool

record LoadedData =
  repositories :: "RepositoryAnalysis list"

text \<open>
  The body of the loop of \<open>analyzeRepositories\<close> for one row, and the loop itself: the
  array \<open>results\<close> is the accumulator, each iteration pushes one row at its end. The
  locals \<open>migrationWeight\<close>, \<open>cohort\<close> and \<open>summary\<close> of the source are written
  \<open>weight\<close>, \<open>label\<close> and \<open>sentence\<close>, their names being those of the result's fields.
\<close>

definition analyzeRepository :: "config \<Rightarrow> RepositoryAnalysis \<Rightarrow> CohortResult" where
  "analyzeRepository cfg repo =
     (let weight = calculateMigrationWeight cfg repo;
          migrationReasons = getMigrationReasons repo;
          label = assignCohort cfg repo weight;
          sentence = generateSummary label migrationReasons weight
      in \<lparr> repoName = Repo_Name repo, orgName = Org_Name repo,
           enterpriseName = Enterprise repo, cohort = label, migrationWeight = weight,
           reasons = migrationReasons, summary = sentence,
           isArchived_flag = isArchived repo \<rparr>)"

fun analyzeLoop :: "config \<Rightarrow> RepositoryAnalysis list \<Rightarrow> CohortResult list \<Rightarrow> CohortResult list" where
  "analyzeLoop cfg [] results = results"
| "analyzeLoop cfg (repo # rest) results =
     analyzeLoop cfg rest (results @ [analyzeRepository cfg repo])"

definition analyzeRepositories :: "config \<Rightarrow> LoadedData \<Rightarrow> CohortResult list" where
  "analyzeRepositories cfg data = analyzeLoop cfg (repositories data) []"

subsection \<open>Aggregation\<close>

text \<open>
  The JavaScript \<open>Map\<close> keeps its keys in insertion order: it is an association list
  with one entry per key. \<open>mapSet\<close> replaces the value of a key in place, or appends
  a new entry.
\<close>

type_synonym cohortMap = "(jsString \<times> CohortResult list) list"

definition mapHas :: "cohortMap \<Rightarrow> jsString \<Rightarrow> bool" where
  "mapHas m k \<longleftrightarrow> map_of m k \<noteq> None"

fun mapSet :: "cohortMap \<Rightarrow> jsString \<Rightarrow> CohortResult list \<Rightarrow> cohortMap" where
  "mapSet [] k v = [(k, v)]"
| "mapSet ((k', v') # m) k v = (if k' = k then (k, v) # m else (k', v') # mapSet m k v)"

text \<open>
  One iteration of the grouping loop: the key is created with an empty array when it
  is missing, then the row is pushed on the array stored under the key. The branch
  \<open>None\<close> of the lookup stands for a push on \<open>undefined\<close>, which the preceding
  \<open>mapSet\<close> rules out.
\<close>

definition groupStep :: "cohortMap \<Rightarrow> CohortResult \<Rightarrow> cohortMap" where
  "groupStep m result =
     (let m1 = (if \<not> mapHas m (cohort result) then mapSet m (cohort result) [] else m)
      in case map_of m1 (cohort result) of
           Some rs \<Rightarrow> mapSet m1 (cohort result) (rs @ [result])
         | None \<Rightarrow> m1)"

definition groupByCohort :: "CohortResult list \<Rightarrow> cohortMap" where
  "groupByCohort results = foldl groupStep [] results"

record CohortSummary =
  cohortName :: jsString
  repositoryCount :: nat
  totalWeight :: int
  averageWeight :: rat

definition summarize :: "jsString \<times> CohortResult list \<Rightarrow> CohortSummary" where
  "summarize entry =
     (let cohortResults = snd entry;
          count = length cohortResults;
          total = foldl (\<lambda>sum result. sum + migrationWeight result) 0 cohortResults;
          average = (if count > 0 then of_int total / of_nat count else 0)
      in \<lparr> cohortName = fst entry, repositoryCount = count, totalWeight = total,
           averageWeight = average \<rparr>)"

text \<open>
  The final \<open>sort\<close> orders by mean weight, largest first, and is stable:
  \<open>sort_key\<close> on the negated mean.
\<close>

definition generateCohortSummaries :: "CohortResult list \<Rightarrow> CohortSummary list" where
  "generateCohortSummaries results =
     sort_key (\<lambda>s. - averageWeight s) (map summarize (groupByCohort results))"

subsection \<open>The category enumeration\<close>

text \<open>
  The blocker categories are the keys of \<open>CONFIG.WEIGHTS\<close>, which are also the
  \<open>HAS_\<close> flags of the feature-flag record. The datatype names them, so that
  statements can range over categories: \<open>flagOf\<close> reads the flag of a category,
  \<open>weightOf\<close> its configured weight, \<open>reasonText\<close> is the string that the reason
  generator pushes for it.
\<close>

datatype category =
  C_APP_INSTALLATIONS | C_GIT_LFS_OBJECTS | C_PACKAGES | C_PROJECTS | C_CUSTOM_PROPERTIES
| C_RULESETS | C_SECRETS | C_ENVIRONMENTS | C_SELF_HOSTED_RUNNERS | C_WEBHOOKS
| C_DISCUSSIONS | C_DEPLOY_KEYS | C_PAGES_CUSTOM_DOMAIN | C_RELEASES_LARGE | C_CODESPACES
| C_MAVEN_PACKAGES | C_MACOS_RUNNERS | C_IS_ARCHIVED | C_EXTERNAL_COLLABORATORS
| C_UNMIGRATABLE

fun flagOf :: "featureFlags \<Rightarrow> category \<Rightarrow> bool" where
  "flagOf f C_APP_INSTALLATIONS = HAS_APP_INSTALLATIONS f"
| "flagOf f C_GIT_LFS_OBJECTS = HAS_GIT_LFS_OBJECTS f"
| "flagOf f C_PACKAGES = HAS_PACKAGES f"
| "flagOf f C_PROJECTS = HAS_PROJECTS f"
| "flagOf f C_CUSTOM_PROPERTIES = HAS_CUSTOM_PROPERTIES f"
| "flagOf f C_RULESETS = HAS_RULESETS f"
| "flagOf f C_SECRETS = HAS_SECRETS f"
| "flagOf f C_ENVIRONMENTS = HAS_ENVIRONMENTS f"
| "flagOf f C_SELF_HOSTED_RUNNERS = HAS_SELF_HOSTED_RUNNERS f"
| "flagOf f C_WEBHOOKS = HAS_WEBHOOKS f"
| "flagOf f C_DISCUSSIONS = HAS_DISCUSSIONS f"
| "flagOf f C_DEPLOY_KEYS = HAS_DEPLOY_KEYS f"
| "flagOf f C_PAGES_CUSTOM_DOMAIN = HAS_PAGES_CUSTOM_DOMAIN f"
| "flagOf f C_RELEASES_LARGE = HAS_RELEASES_LARGE f"
| "flagOf f C_CODESPACES = HAS_CODESPACES f"
| "flagOf f C_MAVEN_PACKAGES = HAS_MAVEN_PACKAGES f"
| "flagOf f C_MACOS_RUNNERS = HAS_MACOS_RUNNERS f"
| "flagOf f C_IS_ARCHIVED = HAS_IS_ARCHIVED f"
| "flagOf f C_EXTERNAL_COLLABORATORS = HAS_EXTERNAL_COLLABORATORS f"
| "flagOf f C_UNMIGRATABLE = HAS_UNMIGRATABLE f"

fun weightOf :: "weights \<Rightarrow> category \<Rightarrow> int" where
  "weightOf w C_APP_INSTALLATIONS = APP_INSTALLATIONS w"
| "weightOf w C_GIT_LFS_OBJECTS = GIT_LFS_OBJECTS w"
| "weightOf w C_PACKAGES = PACKAGES w"
| "weightOf w C_PROJECTS = PROJECTS w"
| "weightOf w C_CUSTOM_PROPERTIES = CUSTOM_PROPERTIES w"
| "weightOf w C_RULESETS = RULESETS w"
| "weightOf w C_SECRETS = SECRETS w"
| "weightOf w C_ENVIRONMENTS = ENVIRONMENTS w"
| "weightOf w C_SELF_HOSTED_RUNNERS = SELF_HOSTED_RUNNERS w"
| "weightOf w C_WEBHOOKS = WEBHOOKS w"
| "weightOf w C_DISCUSSIONS = DISCUSSIONS w"
| "weightOf w C_DEPLOY_KEYS = DEPLOY_KEYS w"
| "weightOf w C_PAGES_CUSTOM_DOMAIN = PAGES_CUSTOM_DOMAIN w"
| "weightOf w C_RELEASES_LARGE = RELEASES_LARGE w"
| "weightOf w C_CODESPACES = CODESPACES w"
| "weightOf w C_MAVEN_PACKAGES = MAVEN_PACKAGES w"
| "weightOf w C_MACOS_RUNNERS = MACOS_RUNNERS w"
| "weightOf w C_IS_ARCHIVED = IS_ARCHIVED w"
| "weightOf w C_EXTERNAL_COLLABORATORS = EXTERNAL_COLLABORATORS w"
| "weightOf w C_UNMIGRATABLE = UNMIGRATABLE w"

fun reasonText :: "RepositoryAnalysis \<Rightarrow> category \<Rightarrow> jsString" where
  "reasonText repo C_APP_INSTALLATIONS = utf16 ''App installations ('' @ app_installations repo @ utf16 '')''"
| "reasonText repo C_GIT_LFS_OBJECTS = utf16 ''Git LFS objects ('' @ git_lfs_objects repo @ utf16 '')''"
| "reasonText repo C_PACKAGES = utf16 ''Repository packages ('' @ repository_packages repo @ utf16 '')''"
| "reasonText repo C_PROJECTS =
     (utf16 ''Projects linked (repo: '') @ projects_linked_to_repo repo @
     (utf16 '', issues: '') @ issues_linked_to_projects repo @ utf16 '')''"
| "reasonText repo C_CUSTOM_PROPERTIES =
     (utf16 ''Custom properties ('') @ repository_custom_properties repo @ utf16 '')''"
| "reasonText repo C_RULESETS = utf16 ''Rulesets ('' @ repository_rulesets repo @ utf16 '')''"
| "reasonText repo C_SECRETS =
     (utf16 ''Secrets (Actions: '') @ repository_actions_secrets repo @
     (utf16 '', Dependabot: '') @ repository_dependabot_secrets repo @ utf16 '')''"
| "reasonText repo C_ENVIRONMENTS = utf16 ''Environments ('' @ repository_environments repo @ utf16 '')''"
| "reasonText repo C_SELF_HOSTED_RUNNERS =
     (utf16 ''Self-hosted runners ('') @ repository_actions_self_hosted_runners repo @ utf16 '')''"
| "reasonText repo C_WEBHOOKS = utf16 ''Webhooks ('' @ repository_webhooks repo @ utf16 '')''"
| "reasonText repo C_DISCUSSIONS = utf16 ''Discussions ('' @ repository_discussions repo @ utf16 '')''"
| "reasonText repo C_DEPLOY_KEYS = utf16 ''Deploy keys ('' @ repository_deploy_keys repo @ utf16 '')''"
| "reasonText repo C_PAGES_CUSTOM_DOMAIN =
     (utf16 ''Pages custom domain ('') @ repository_pages_customdomain repo @ utf16 '')''"
| "reasonText repo C_RELEASES_LARGE =
     (utf16 ''Large releases ('') @ repository_releases_gt_5gb repo @ utf16 '')''"
| "reasonText repo C_MAVEN_PACKAGES = utf16 ''Maven packages ('' @ maven_package_count repo @ utf16 '')''"
| "reasonText repo C_CODESPACES =
     (utf16 ''Codespaces ('') @ codespace_count repo @ utf16 '' codespaces, '' @
     codespace_user_count repo @ utf16 '' users)''"
| "reasonText repo C_MACOS_RUNNERS = utf16 ''macOS runners''"
| "reasonText repo C_EXTERNAL_COLLABORATORS = utf16 ''External collaborators''"
| "reasonText repo C_UNMIGRATABLE = utf16 ''Unmigratable features''"
| "reasonText repo C_IS_ARCHIVED = utf16 ''Archived repository''"

text \<open>A category is present on a row when its flag in the feature-flag record is set.\<close>

definition present :: "RepositoryAnalysis \<Rightarrow> category \<Rightarrow> bool" where
  "present repo c = flagOf (hasFeatureFlags repo) c"

text \<open>The full enumeration, in the order of \<open>CONFIG.WEIGHTS\<close>.\<close>

definition allCategories :: "category list" where
  "allCategories =
     [C_APP_INSTALLATIONS, C_GIT_LFS_OBJECTS, C_PACKAGES, C_PROJECTS, C_CUSTOM_PROPERTIES,
      C_RULESETS, C_SECRETS, C_ENVIRONMENTS, C_SELF_HOSTED_RUNNERS, C_WEBHOOKS, C_DISCUSSIONS,
      C_DEPLOY_KEYS, C_PAGES_CUSTOM_DOMAIN, C_RELEASES_LARGE, C_CODESPACES, C_MAVEN_PACKAGES,
      C_MACOS_RUNNERS, C_IS_ARCHIVED, C_EXTERNAL_COLLABORATORS, C_UNMIGRATABLE]"

text \<open>The categories that the weight calculator tests, in its order.\<close>

definition weightedCategories :: "category list" where
  "weightedCategories =
     [C_APP_INSTALLATIONS, C_GIT_LFS_OBJECTS, C_PACKAGES, C_PROJECTS, C_CUSTOM_PROPERTIES,
      C_RULESETS, C_SECRETS, C_ENVIRONMENTS, C_SELF_HOSTED_RUNNERS, C_WEBHOOKS, C_DISCUSSIONS,
      C_DEPLOY_KEYS, C_PAGES_CUSTOM_DOMAIN, C_RELEASES_LARGE, C_IS_ARCHIVED,
      C_EXTERNAL_COLLABORATORS, C_UNMIGRATABLE]"

text \<open>The categories in the order in which the reason generator tests them.\<close>

definition reasonOrder :: "category list" where
  "reasonOrder =
     [C_APP_INSTALLATIONS, C_GIT_LFS_OBJECTS, C_PACKAGES, C_PROJECTS, C_CUSTOM_PROPERTIES,
      C_RULESETS, C_SECRETS, C_ENVIRONMENTS, C_SELF_HOSTED_RUNNERS, C_WEBHOOKS, C_DISCUSSIONS,
      C_DEPLOY_KEYS, C_PAGES_CUSTOM_DOMAIN, C_RELEASES_LARGE, C_MAVEN_PACKAGES, C_CODESPACES,
      C_MACOS_RUNNERS, C_EXTERNAL_COLLABORATORS, C_UNMIGRATABLE, C_IS_ARCHIVED]"

text \<open>
  The weight as the specification words it: the sum of the configured weights over
  all present categories of the full enumeration.
\<close>

definition specWeight :: "config \<Rightarrow> RepositoryAnalysis \<Rightarrow> int" where
  "specWeight cfg repo =
     sum_list (map (weightOf (WEIGHTS cfg)) (filter (present repo) allCategories))"

text \<open>A row whose fields are all empty, the starting point of the concrete examples.\<close>

definition emptyRepository :: RepositoryAnalysis where
  "emptyRepository =
     \<lparr> Enterprise = [], Org_Name = [], Repo_Name = [], isArchived_field = [],
       has_external_collaborators = [], issues_linked_to_projects = [],
       projects_linked_to_repo = [], app_installations = [],
       repository_custom_properties = [], repository_rulesets = [],
       repository_webhooks = [], repository_packages = [], repository_releases_gt_5gb = [],
       repository_environments = [], git_lfs_objects = [], repository_actions_secrets = [],
       repository_actions_self_hosted_runners = [], repository_dependabot_secrets = [],
       repository_discussions = [], repository_deploy_keys = [],
       repository_pages_customdomain = [], has_unmigratable = [], has_maven_packages = [],
       maven_package_count = [], has_codespaces = [], codespace_count = [],
       codespace_user_count = [], has_macos_runners = [] \<rparr>"



section \<open>Properties\<close>

subsection \<open>Auxiliary facts\<close>

text \<open>Literals: unfolding, and distinct characters have distinct code units.\<close>

lemma utf16_simps:
  "utf16 [] = []" "utf16 (c # cs) = cu c # utf16 cs"
  by (simp_all add: utf16_def)

lemma unat_cu: "unat (cu c) = of_char c"
proof -
  have "(of_char c :: nat) < 256"
    by (rule nat_of_char_less_256)
  also have "(256 :: nat) < 2 ^ 16"
    by simp
  finally have "(of_char c :: nat) < 2 ^ 16" .
  then show ?thesis
    by (simp add: cu_def unat_of_nat)
qed

lemma cu_eq_iff [simp]: "cu c = cu d \<longleftrightarrow> c = d"
proof
  assume "cu c = cu d"
  then have "unat (cu c) = unat (cu d)" by simp
  then show "c = d" by (simp add: unat_cu)
qed simp

lemma utf16_eq_iff [simp]: "utf16 s = utf16 t \<longleftrightarrow> s = t"
proof (induction s arbitrary: t)
  case Nil
  then show ?case by (cases t) (simp_all add: utf16_simps)
next
  case (Cons c s)
  then show ?case by (cases t) (simp_all add: utf16_simps)
qed


lemma utf16_Nil_iff [simp]: "utf16 s = [] \<longleftrightarrow> s = []" "[] = utf16 s \<longleftrightarrow> s = []"
  by (cases s; simp add: utf16_simps)+

lemma if_add_right: "(if c then (x::int) + w else x) = x + (if c then w else 0)"
  by simp

lemma if_snoc: "(if c then xs @ [s] else xs) = xs @ (if c then [s] else [])"
  by simp

lemma filter_Cons_append: "filter P (x # xs) = (if P x then [x] else []) @ filter P xs"
  by simp

lemma map_if_single: "map f (if c then [x] else []) = (if c then [f x] else [])"
  by simp

lemma sum_list_if_single: "sum_list (if c then [x::int] else []) = (if c then x else 0)"
  by simp

text \<open>
  The weight calculator adds, for each category it tests, the configured weight when
  the flag of the category is set: its tests are those of the feature-flag record.
\<close>

lemma calculateMigrationWeight_flags:
  "calculateMigrationWeight cfg repo =
     sum_list (map (weightOf (WEIGHTS cfg)) (filter (present repo) weightedCategories))"
  unfolding calculateMigrationWeight_def weightedCategories_def present_def
  by (simp only: if_add_right Let_def filter_Cons_append map_append map_if_single
        sum_list_append sum_list_if_single flagOf.simps weightOf.simps filter.simps(1)
        list.map sum_list.Nil add_0_left add_0_right hasFeatureFlags_def featureFlags.simps)

text \<open>The reason generator pushes the text of each category whose flag is set.\<close>

lemma getMigrationReasons_flags:
  "getMigrationReasons repo = map (reasonText repo) (filter (present repo) reasonOrder)"
  unfolding getMigrationReasons_def reasonOrder_def present_def
  by (simp only: if_snoc Let_def filter_Cons_append map_append map_if_single
        flagOf.simps reasonText.simps filter.simps(1) list.map append_Nil append_Nil2
        hasFeatureFlags_def featureFlags.simps append_assoc)




lemma toBoolean_literals [simp]:
  "toBoolean (utf16 ''true'')" "toBoolean (utf16 ''TRUE'')" "toBoolean (utf16 ''1'')" "toBoolean (utf16 ''yes'')"
  "toBoolean (utf16 ''YES'')" "\<not> toBoolean []"
  by (simp_all add: toBoolean_def)

lemma toNumber_empty [simp]: "toNumber [] = 0"
  by (simp add: toNumber_def)

lemma CONFIG_simps [simp]:
  "THRESHOLDS CONFIG = \<lparr> CLEAN_REPO_MAX_WEIGHT = 0, LOW_COMPLEXITY_MAX_WEIGHT = 10,
           MEDIUM_COMPLEXITY_MAX_WEIGHT = 25 \<rparr>"
  "FEATURES CONFIG = \<lparr> INCLUDE_ARCHIVED_IN_MAIN_ANALYSIS = False, SEPARATE_MAVEN_COHORT = True,
           SEPARATE_CODESPACE_COHORT = True, SEPARATE_MACOS_COHORT = True,
           SEPARATE_UNMIGRATABLE_COHORT = False \<rparr>"
  by (simp_all add: CONFIG_def)

text \<open>When no categorical step fires, the label is decided by the three thresholds.\<close>

lemma assignCohort_by_weight:
  assumes "\<not> (SEPARATE_UNMIGRATABLE_COHORT (FEATURES cfg) \<and> toBoolean (has_unmigratable repo))"
    and "\<not> isArchived repo"
    and "\<not> (SEPARATE_MACOS_COHORT (FEATURES cfg) \<and> toBoolean (has_macos_runners repo))"
    and "\<not> (SEPARATE_MAVEN_COHORT (FEATURES cfg) \<and> toBoolean (has_maven_packages repo))"
    and "\<not> (SEPARATE_CODESPACE_COHORT (FEATURES cfg) \<and> toBoolean (has_codespaces repo))"
  shows "assignCohort cfg repo w =
           (if w \<le> CLEAN_REPO_MAX_WEIGHT (THRESHOLDS cfg) then utf16 ''CLEAN''
            else if w \<le> LOW_COMPLEXITY_MAX_WEIGHT (THRESHOLDS cfg) then utf16 ''LOW_COMPLEXITY''
            else if w \<le> MEDIUM_COMPLEXITY_MAX_WEIGHT (THRESHOLDS cfg) then utf16 ''MEDIUM_COMPLEXITY''
            else utf16 ''HIGH_COMPLEXITY'')"
  unfolding assignCohort_def
  by (simp only: assms [THEN eq_False [THEN iffD2]] if_False)

lemma toNumber_3 [simp]: "toNumber (utf16 ''3'') = 3"
  by (simp add: toNumber_def trim_def isWhiteSpace_def parseInt_def isDigit_def
        digitsValue_def digitValue_def cu_def utf16_simps)

lemma weight_of_example:
  "calculateMigrationWeight CONFIG emptyRepository = 0"
  "calculateMigrationWeight CONFIG (emptyRepository\<lparr>repository_webhooks := utf16 ''3''\<rparr>) = 10"
  "calculateMigrationWeight CONFIG
     (emptyRepository\<lparr>repository_packages := utf16 ''3'', repository_deploy_keys := utf16 ''3''\<rparr>) = 11"
  "calculateMigrationWeight CONFIG (emptyRepository\<lparr>has_unmigratable := utf16 ''true''\<rparr>) = 30"
  by (simp_all add: calculateMigrationWeight_flags weightedCategories_def present_def
        hasFeatureFlags_def emptyRepository_def isArchived_def CONFIG_def)

text \<open>The weight as a sum of one term per test of the calculator.\<close>

lemma calculateMigrationWeight_tests:
  "calculateMigrationWeight cfg repo =
     (if toNumber (app_installations repo) > 0 then APP_INSTALLATIONS (WEIGHTS cfg) else 0) +
     (if toNumber (git_lfs_objects repo) > 0 then GIT_LFS_OBJECTS (WEIGHTS cfg) else 0) +
     (if toNumber (repository_packages repo) > 0 then PACKAGES (WEIGHTS cfg) else 0) +
     (if toNumber (projects_linked_to_repo repo) > 0 \<or>
         toNumber (issues_linked_to_projects repo) > 0 then PROJECTS (WEIGHTS cfg) else 0) +
     (if toNumber (repository_custom_properties repo) > 0
      then CUSTOM_PROPERTIES (WEIGHTS cfg) else 0) +
     (if toNumber (repository_rulesets repo) > 0 then RULESETS (WEIGHTS cfg) else 0) +
     (if toNumber (repository_actions_secrets repo) > 0 \<or>
         toNumber (repository_dependabot_secrets repo) > 0 then SECRETS (WEIGHTS cfg) else 0) +
     (if toNumber (repository_environments repo) > 0 then ENVIRONMENTS (WEIGHTS cfg) else 0) +
     (if toNumber (repository_actions_self_hosted_runners repo) > 0
      then SELF_HOSTED_RUNNERS (WEIGHTS cfg) else 0) +
     (if toNumber (repository_webhooks repo) > 0 then WEBHOOKS (WEIGHTS cfg) else 0) +
     (if toNumber (repository_discussions repo) > 0 then DISCUSSIONS (WEIGHTS cfg) else 0) +
     (if toNumber (repository_deploy_keys repo) > 0 then DEPLOY_KEYS (WEIGHTS cfg) else 0) +
     (if toNumber (repository_pages_customdomain repo) > 0
      then PAGES_CUSTOM_DOMAIN (WEIGHTS cfg) else 0) +
     (if toNumber (repository_releases_gt_5gb repo) > 0 then RELEASES_LARGE (WEIGHTS cfg) else 0) +
     (if isArchived repo then IS_ARCHIVED (WEIGHTS cfg) else 0) +
     (if toBoolean (has_external_collaborators repo)
      then EXTERNAL_COLLABORATORS (WEIGHTS cfg) else 0) +
     (if toBoolean (has_unmigratable repo) then UNMIGRATABLE (WEIGHTS cfg) else 0)"
  unfolding calculateMigrationWeight_def
  by (simp only: if_add_right Let_def add_0_left)


text \<open>The loop of the pipeline maps the per-row body over the rows, in order.\<close>

lemma analyzeLoop_map:
  "analyzeLoop cfg repos results = results @ map (analyzeRepository cfg) repos"
  by (induction repos arbitrary: results) simp_all

lemma analyzeRepositories_map:
  "analyzeRepositories cfg data = map (analyzeRepository cfg) (repositories data)"
  by (simp add: analyzeRepositories_def analyzeLoop_map)

lemma example_rows:
  "analyzeRepository CONFIG emptyRepository =
     \<lparr> repoName = [], orgName = [], enterpriseName = [], cohort = utf16 ''CLEAN'', migrationWeight = 0,
       reasons = [],
       summary = utf16 ''Clean repository with no migration blockers - can migrate easily'',
       isArchived_flag = False \<rparr>"
  "analyzeRepository CONFIG (emptyRepository\<lparr>repository_webhooks := utf16 ''3''\<rparr>) =
     \<lparr> repoName = [], orgName = [], enterpriseName = [], cohort = utf16 ''LOW_COMPLEXITY'',
       migrationWeight = 10, reasons = [utf16 ''Webhooks (3)''],
       summary = utf16 ''Low complexity migration (weight: 10) - 1 minor issues'',
       isArchived_flag = False \<rparr>"
  by code_simp+

lemma example_summaries:
  "generateCohortSummaries (analyzeRepositories CONFIG
     \<lparr> repositories = [emptyRepository, emptyRepository\<lparr>repository_webhooks := utf16 ''3''\<rparr>,
          emptyRepository\<lparr>repository_webhooks := utf16 ''3''\<rparr>] \<rparr>) =
   [\<lparr> cohortName = utf16 ''LOW_COMPLEXITY'', repositoryCount = 2, totalWeight = 20,
      averageWeight = 10 \<rparr>,
    \<lparr> cohortName = utf16 ''CLEAN'', repositoryCount = 1, totalWeight = 0, averageWeight = 0 \<rparr>]"
  by code_simp

text \<open>
  White space beyond ASCII is skipped as JavaScript skips it: a no-break space or a
  byte order mark before the digit \<open>7\<close> still parses to 7, and a row whose
  installation count is written so carries the installation weight.
\<close>

lemma toNumber_white_space_examples:
  "toNumber (0x00A0 # utf16 ''7'') = 7"
  "toNumber (0xFEFF # utf16 ''7'') = 7"
  "toNumber (utf16 ''7'' @ [0x2028]) = 7"
  "toNumber [0x00A0, 0x3000, 0x2003] = 0"
  "calculateMigrationWeight CONFIG
     (emptyRepository\<lparr>app_installations := 0x00A0 # utf16 ''7''\<rparr>) = 15"
  by code_simp+

subsection \<open>Migration weight\<close>

text \<open>
  Claim C1, as the specification words it, fails: a row whose only set field is
  \<open>has_maven_packages = "true"\<close> has the Maven category present, with configured
  weight 25, and the weight calculator returns 0.
\<close>

theorem weight_full_enumeration_counterexample:
  "calculateMigrationWeight CONFIG (emptyRepository\<lparr>has_maven_packages := utf16 ''true''\<rparr>) = 0 \<and>
   specWeight CONFIG (emptyRepository\<lparr>has_maven_packages := utf16 ''true''\<rparr>) = 25"
  by (simp add: calculateMigrationWeight_flags specWeight_def allCategories_def
        weightedCategories_def present_def hasFeatureFlags_def emptyRepository_def
        isArchived_def CONFIG_def)

text \<open>
  Claim C1, amended: the migration weight of a row is the sum of the configured
  weights over the present categories among the seventeen that the calculator tests:
  the fourteen count-based categories, the archived flag, external collaborators and
  the unmigratable flag. The three platform-gap categories (Maven packages,
  Codespaces, macOS runners) have a configured weight, and add nothing to the
  migration weight. The second conjunct says which categories are left out.
\<close>

theorem weight_sum_of_tested_categories:
  "calculateMigrationWeight cfg repo =
     sum_list (map (weightOf (WEIGHTS cfg)) (filter (present repo) weightedCategories)) \<and>
   set allCategories - set weightedCategories =
     {C_MAVEN_PACKAGES, C_CODESPACES, C_MACOS_RUNNERS}"
proof
  show "calculateMigrationWeight cfg repo =
     sum_list (map (weightOf (WEIGHTS cfg)) (filter (present repo) weightedCategories))"
    by (rule calculateMigrationWeight_flags)
  show "set allCategories - set weightedCategories =
     {C_MAVEN_PACKAGES, C_CODESPACES, C_MACOS_RUNNERS}"
    by (auto simp: allCategories_def weightedCategories_def)
qed

theorem weight_sum_of_tested_categories_witness:
  "calculateMigrationWeight CONFIG
     (emptyRepository\<lparr>repository_webhooks := utf16 ''3'', isArchived_field := utf16 ''true'',
        has_codespaces := utf16 ''yes''\<rparr>) = 11"
proof -
  let ?r = "emptyRepository\<lparr>repository_webhooks := utf16 ''3'', isArchived_field := utf16 ''true'',
        has_codespaces := utf16 ''yes''\<rparr>"
  have "sum_list (map (weightOf (WEIGHTS CONFIG)) (filter (present ?r) weightedCategories)) = 11"
    by (simp add: weightedCategories_def present_def hasFeatureFlags_def emptyRepository_def
          isArchived_def CONFIG_def)
  with weight_sum_of_tested_categories [of CONFIG ?r] show ?thesis by simp
qed

text \<open>
  Claim C7: the projects category adds its configured weight once. With \<open>p\<close> and \<open>i\<close>
  two positive counts and \<open>z\<close> a value that is not positive, a row with both counts
  positive has the weight of the same row with only the repository count positive, the
  weight of the same row with only the issue count positive, and the weight of the
  same row with neither, plus the configured projects weight.
\<close>

theorem projects_weight_once:
  assumes "toNumber p > 0" and "toNumber i > 0" and "\<not> toNumber z > 0"
  shows "calculateMigrationWeight cfg
           (repo\<lparr>projects_linked_to_repo := p, issues_linked_to_projects := i\<rparr>) =
         calculateMigrationWeight cfg
           (repo\<lparr>projects_linked_to_repo := p, issues_linked_to_projects := z\<rparr>) \<and>
         calculateMigrationWeight cfg
           (repo\<lparr>projects_linked_to_repo := p, issues_linked_to_projects := i\<rparr>) =
         calculateMigrationWeight cfg
           (repo\<lparr>projects_linked_to_repo := z, issues_linked_to_projects := i\<rparr>) \<and>
         calculateMigrationWeight cfg
           (repo\<lparr>projects_linked_to_repo := p, issues_linked_to_projects := i\<rparr>) =
         calculateMigrationWeight cfg
           (repo\<lparr>projects_linked_to_repo := z, issues_linked_to_projects := z\<rparr>) +
         PROJECTS (WEIGHTS cfg)"
  using assms by (simp add: calculateMigrationWeight_tests isArchived_def split del: if_split)

theorem projects_weight_once_witness:
  "toNumber (utf16 ''3'') > 0 \<and> \<not> toNumber [] > 0 \<and>
   calculateMigrationWeight CONFIG
     (emptyRepository\<lparr>projects_linked_to_repo := utf16 ''3'', issues_linked_to_projects := utf16 ''3''\<rparr>) = 3 \<and>
   calculateMigrationWeight CONFIG
     (emptyRepository\<lparr>projects_linked_to_repo := utf16 ''3'', issues_linked_to_projects := []\<rparr>) = 3 \<and>
   calculateMigrationWeight CONFIG
     (emptyRepository\<lparr>projects_linked_to_repo := [], issues_linked_to_projects := utf16 ''3''\<rparr>) = 3 \<and>
   calculateMigrationWeight CONFIG
     (emptyRepository\<lparr>projects_linked_to_repo := [], issues_linked_to_projects := []\<rparr>) = 0"
proof -
  have "calculateMigrationWeight CONFIG
     (emptyRepository\<lparr>projects_linked_to_repo := [], issues_linked_to_projects := []\<rparr>) = 0"
    by (simp add: calculateMigrationWeight_tests emptyRepository_def isArchived_def)
  moreover have "PROJECTS (WEIGHTS CONFIG) = 3"
    by (simp add: CONFIG_def)
  ultimately show ?thesis
    using projects_weight_once [of "(utf16 ''3'')" "(utf16 ''3'')" "[]" CONFIG emptyRepository] by simp
qed



subsection \<open>The decision list\<close>

text \<open>
  Claim C2, as the specification words it, fails: the unmigratable toggle
  \<open>SEPARATE_UNMIGRATABLE_COHORT\<close> is \<open>false\<close> in \<open>CONFIG\<close>, so a row whose only set
  field is \<open>has_unmigratable = "true"\<close> (weight 30) is labelled \<open>HIGH_COMPLEXITY\<close>.
\<close>

theorem unmigratable_default_counterexample:
  "toBoolean (has_unmigratable (emptyRepository\<lparr>has_unmigratable := utf16 ''true''\<rparr>)) \<and>
   \<not> SEPARATE_UNMIGRATABLE_COHORT (FEATURES CONFIG) \<and>
   cohort (analyzeRepository CONFIG (emptyRepository\<lparr>has_unmigratable := utf16 ''true''\<rparr>))
     = utf16 ''HIGH_COMPLEXITY''"
  by (simp add: analyzeRepository_def assignCohort_def weight_of_example Let_def)
    (simp add: emptyRepository_def isArchived_def)

text \<open>
  Claim C2, amended: under a configuration whose unmigratable toggle is enabled, every
  row whose unmigratable flag is present is labelled \<open>UNMIGRATABLE\<close>, whatever its
  other fields and its weight (the test is the first of the decision list); under a
  configuration whose toggle is disabled no row is labelled \<open>UNMIGRATABLE\<close>; and the
  toggle of \<open>CONFIG\<close> is disabled.
\<close>

theorem unmigratable_first_when_enabled:
  "(SEPARATE_UNMIGRATABLE_COHORT (FEATURES cfg) \<and> toBoolean (has_unmigratable repo)
      \<longrightarrow> assignCohort cfg repo w = utf16 ''UNMIGRATABLE'') \<and>
   (\<not> SEPARATE_UNMIGRATABLE_COHORT (FEATURES cfg)
      \<longrightarrow> assignCohort cfg repo w \<noteq> (utf16 ''UNMIGRATABLE'')) \<and>
   \<not> SEPARATE_UNMIGRATABLE_COHORT (FEATURES CONFIG)"
  by (simp add: assignCohort_def)

theorem unmigratable_first_when_enabled_witness:
  "SEPARATE_UNMIGRATABLE_COHORT
     (FEATURES (CONFIG\<lparr>FEATURES := (FEATURES CONFIG)\<lparr>SEPARATE_UNMIGRATABLE_COHORT := True\<rparr>\<rparr>)) \<and>
   toBoolean (has_unmigratable (emptyRepository\<lparr>has_unmigratable := utf16 ''true''\<rparr>)) \<and>
   assignCohort (CONFIG\<lparr>FEATURES := (FEATURES CONFIG)\<lparr>SEPARATE_UNMIGRATABLE_COHORT := True\<rparr>\<rparr>)
     (emptyRepository\<lparr>has_unmigratable := utf16 ''true''\<rparr>) 30 = utf16 ''UNMIGRATABLE'' \<and>
   \<not> SEPARATE_UNMIGRATABLE_COHORT (FEATURES CONFIG) \<and>
   assignCohort CONFIG (emptyRepository\<lparr>has_unmigratable := utf16 ''true''\<rparr>) 30 \<noteq> (utf16 ''UNMIGRATABLE'')"
  using unmigratable_first_when_enabled
          [of "CONFIG\<lparr>FEATURES := (FEATURES CONFIG)\<lparr>SEPARATE_UNMIGRATABLE_COHORT := True\<rparr>\<rparr>"
              "emptyRepository\<lparr>has_unmigratable := utf16 ''true''\<rparr>" 30]
        unmigratable_first_when_enabled
          [of CONFIG "emptyRepository\<lparr>has_unmigratable := utf16 ''true''\<rparr>" 30]
  by (simp add: emptyRepository_def)

text \<open>
  Claim C4: on a row on which no categorical step fires (the unmigratable step does
  not fire, the row is not archived and has no macOS, Maven or Codespaces flag), the
  weight \<open>LOW_COMPLEXITY_MAX_WEIGHT\<close> is labelled \<open>LOW_COMPLEXITY\<close> and the weight
  \<open>LOW_COMPLEXITY_MAX_WEIGHT + 1\<close> is labelled \<open>MEDIUM_COMPLEXITY\<close>; the same holds
  of the label that the pipeline gives to a row whose computed weight is one of the two.
\<close>

theorem threshold_boundary:
  assumes "\<not> (SEPARATE_UNMIGRATABLE_COHORT (FEATURES CONFIG) \<and> toBoolean (has_unmigratable repo))"
    and "\<not> isArchived repo"
    and "\<not> toBoolean (has_macos_runners repo)"
    and "\<not> toBoolean (has_maven_packages repo)"
    and "\<not> toBoolean (has_codespaces repo)"
  shows "assignCohort CONFIG repo (LOW_COMPLEXITY_MAX_WEIGHT (THRESHOLDS CONFIG))
           = utf16 ''LOW_COMPLEXITY'' \<and>
         assignCohort CONFIG repo (LOW_COMPLEXITY_MAX_WEIGHT (THRESHOLDS CONFIG) + 1)
           = utf16 ''MEDIUM_COMPLEXITY'' \<and>
         (calculateMigrationWeight CONFIG repo = LOW_COMPLEXITY_MAX_WEIGHT (THRESHOLDS CONFIG)
            \<longrightarrow> cohort (analyzeRepository CONFIG repo) = utf16 ''LOW_COMPLEXITY'') \<and>
         (calculateMigrationWeight CONFIG repo = LOW_COMPLEXITY_MAX_WEIGHT (THRESHOLDS CONFIG) + 1
            \<longrightarrow> cohort (analyzeRepository CONFIG repo) = utf16 ''MEDIUM_COMPLEXITY'')"
  using assms by (simp add: assignCohort_by_weight analyzeRepository_def Let_def)

theorem threshold_boundary_witness:
  "cohort (analyzeRepository CONFIG (emptyRepository\<lparr>repository_webhooks := utf16 ''3''\<rparr>))
     = utf16 ''LOW_COMPLEXITY'' \<and>
   cohort (analyzeRepository CONFIG
     (emptyRepository\<lparr>repository_packages := utf16 ''3'', repository_deploy_keys := utf16 ''3''\<rparr>))
     = utf16 ''MEDIUM_COMPLEXITY'' \<and>
   assignCohort CONFIG emptyRepository 10 = utf16 ''LOW_COMPLEXITY'' \<and>
   assignCohort CONFIG emptyRepository 11 = utf16 ''MEDIUM_COMPLEXITY''"
  using threshold_boundary [of "emptyRepository\<lparr>repository_webhooks := utf16 ''3''\<rparr>"]
        threshold_boundary
          [of "emptyRepository\<lparr>repository_packages := utf16 ''3'', repository_deploy_keys := utf16 ''3''\<rparr>"]
        threshold_boundary [of emptyRepository]
  by (simp add: weight_of_example) (simp add: emptyRepository_def isArchived_def)

text \<open>
  Claim C5: a row that is archived and has the macOS-runner flag is labelled
  \<open>ARCHIVED\<close>, whatever its weight; and under no configuration is it labelled
  \<open>MACOS_RUNNERS\<close>.
\<close>

theorem archived_before_macos:
  assumes "isArchived repo" and "toBoolean (has_macos_runners repo)"
  shows "assignCohort CONFIG repo w = utf16 ''ARCHIVED'' \<and>
         assignCohort cfg repo w \<noteq> (utf16 ''MACOS_RUNNERS'')"
  using assms by (simp add: assignCohort_def)

theorem archived_before_macos_witness:
  "isArchived (emptyRepository\<lparr>isArchived_field := utf16 ''TRUE'', has_macos_runners := utf16 ''1''\<rparr>) \<and>
   toBoolean (has_macos_runners
     (emptyRepository\<lparr>isArchived_field := utf16 ''TRUE'', has_macos_runners := utf16 ''1''\<rparr>)) \<and>
   assignCohort CONFIG
     (emptyRepository\<lparr>isArchived_field := utf16 ''TRUE'', has_macos_runners := utf16 ''1''\<rparr>) 1 = utf16 ''ARCHIVED''"
  using archived_before_macos
          [of "emptyRepository\<lparr>isArchived_field := utf16 ''TRUE'', has_macos_runners := utf16 ''1''\<rparr>" 1 CONFIG]
  by (simp add: isArchived_def)


subsection \<open>Truthy spellings\<close>

text \<open>
  Claim C9 fails on the code, which has two truthy sets: \<open>toBoolean\<close> accepts
  \<open>"true"\<close>, \<open>"TRUE"\<close>, \<open>"1"\<close>, \<open>"yes"\<close> and \<open>"YES"\<close>, and \<open>isArchived\<close> compares
  the archived field with \<open>"true"\<close>, \<open>"TRUE"\<close> and \<open>"1"\<close> only. A row with
  \<open>has_unmigratable = "yes"\<close> has the unmigratable flag; a row with
  \<open>isArchived = "yes"\<close> is not archived: it gets no archived weight, no archived
  reason, and the label \<open>CLEAN\<close>.
\<close>

theorem isArchived_yes_not_archived:
  "toBoolean (utf16 ''yes'') \<and>
   HAS_UNMIGRATABLE (hasFeatureFlags (emptyRepository\<lparr>has_unmigratable := utf16 ''yes''\<rparr>)) \<and>
   \<not> isArchived (emptyRepository\<lparr>isArchived_field := utf16 ''yes''\<rparr>) \<and>
   \<not> HAS_IS_ARCHIVED (hasFeatureFlags (emptyRepository\<lparr>isArchived_field := utf16 ''yes''\<rparr>)) \<and>
   calculateMigrationWeight CONFIG (emptyRepository\<lparr>isArchived_field := utf16 ''yes''\<rparr>) = 0 \<and>
   getMigrationReasons (emptyRepository\<lparr>isArchived_field := utf16 ''yes''\<rparr>) = [] \<and>
   assignCohort CONFIG (emptyRepository\<lparr>isArchived_field := utf16 ''yes''\<rparr>) 0 = utf16 ''CLEAN''"
  by (simp add: hasFeatureFlags_def isArchived_def calculateMigrationWeight_tests
        getMigrationReasons_flags reasonOrder_def present_def assignCohort_def)
    (simp add: emptyRepository_def)

subsection \<open>Reasons and presence\<close>




subsection \<open>Aggregation totals\<close>

lemma map_of_mapSet: "map_of (mapSet m k v) = (map_of m)(k \<mapsto> v)"
  by (induction m k v rule: mapSet.induct) auto

lemma total_mapSet_new:
  fixes g :: "CohortResult list \<Rightarrow> 'a::comm_monoid_add"
  shows "map_of m k = None \<Longrightarrow>
    sum_list (map (\<lambda>e. g (snd e)) (mapSet m k v)) = sum_list (map (\<lambda>e. g (snd e)) m) + g v"
  by (induction m k v rule: mapSet.induct) (auto simp: add.assoc split: if_splits)

lemma total_mapSet_push:
  fixes h :: "CohortResult \<Rightarrow> 'a::comm_monoid_add"
  shows "map_of m k = Some old \<Longrightarrow>
    sum_list (map (\<lambda>e. sum_list (map h (snd e))) (mapSet m k (old @ [r]))) =
    sum_list (map (\<lambda>e. sum_list (map h (snd e))) m) + h r"
  by (induction m k "old @ [r]" rule: mapSet.induct)
     (auto simp: add.assoc add.left_commute add.commute split: if_splits)

text \<open>One step of the grouping loop adds the row's share to the total over all groups.\<close>

lemma total_groupStep:
  fixes h :: "CohortResult \<Rightarrow> 'a::comm_monoid_add"
  shows "sum_list (map (\<lambda>e. sum_list (map h (snd e))) (groupStep m r)) =
         sum_list (map (\<lambda>e. sum_list (map h (snd e))) m) + h r"
proof (cases "map_of m (cohort r)")
  case None
  let ?m1 = "mapSet m (cohort r) []"
  have "map_of ?m1 (cohort r) = Some []"
    by (simp add: map_of_mapSet)
  then have "sum_list (map (\<lambda>e. sum_list (map h (snd e))) (mapSet ?m1 (cohort r) ([] @ [r]))) =
             sum_list (map (\<lambda>e. sum_list (map h (snd e))) ?m1) + h r"
    by (rule total_mapSet_push)
  moreover have "sum_list (map (\<lambda>e. sum_list (map h (snd e))) ?m1) =
                 sum_list (map (\<lambda>e. sum_list (map h (snd e))) m)"
    using None total_mapSet_new [of m "cohort r" "\<lambda>rs. sum_list (map h rs)" "[]"] by simp
  moreover have "groupStep m r = mapSet ?m1 (cohort r) ([] @ [r])"
    using None by (simp add: groupStep_def mapHas_def map_of_mapSet)
  ultimately show ?thesis by simp
next
  case (Some old)
  then show ?thesis
    by (simp add: groupStep_def mapHas_def total_mapSet_push)
qed

lemma total_foldl_groupStep:
  fixes h :: "CohortResult \<Rightarrow> 'a::comm_monoid_add"
  shows "sum_list (map (\<lambda>e. sum_list (map h (snd e))) (foldl groupStep m rs)) =
         sum_list (map (\<lambda>e. sum_list (map h (snd e))) m) + sum_list (map h rs)"
  by (induction rs arbitrary: m) (simp_all add: total_groupStep add.assoc)

lemma total_groupByCohort:
  fixes h :: "CohortResult \<Rightarrow> 'a::comm_monoid_add"
  shows "sum_list (map (\<lambda>e. sum_list (map h (snd e))) (groupByCohort rs)) = sum_list (map h rs)"
  by (simp add: groupByCohort_def total_foldl_groupStep)

lemma foldl_add_sum_list:
  "foldl (\<lambda>sum result. sum + f result) (a::int) xs = a + sum_list (map f xs)"
  by (induction xs arbitrary: a) simp_all

lemma summarize_count: "repositoryCount (summarize e) = sum_list (map (\<lambda>_. 1) (snd e))"
  by (simp add: summarize_def Let_def sum_list_triv)

lemma summarize_total: "totalWeight (summarize e) = sum_list (map migrationWeight (snd e))"
  by (simp add: summarize_def Let_def foldl_add_sum_list)

lemma cohortName_summarize [simp]: "cohortName (summarize e) = fst e"
  by (simp add: summarize_def Let_def)

text \<open>Sorting reorders the summaries and changes no total.\<close>

lemma sum_list_insort_key:
  fixes f :: "'b \<Rightarrow> 'a::comm_monoid_add"
  shows "sum_list (map f (insort_key k x xs)) = f x + sum_list (map f xs)"
  by (induction xs) (simp_all add: add.left_commute)

lemma sum_list_sort_key:
  fixes f :: "'b \<Rightarrow> 'a::comm_monoid_add"
  shows "sum_list (map f (sort_key k xs)) = sum_list (map f xs)"
  by (induction xs) (simp_all add: sum_list_insort_key)

lemma distinct_map_sort_key: "distinct (map f (sort_key k xs)) = distinct (map f xs)"
  by (simp add: distinct_map)

text \<open>The groups: one entry per label that occurs, holding the rows of that label.\<close>

lemma map_fst_mapSet:
  "map fst (mapSet m k v) = (if k \<in> set (map fst m) then map fst m else map fst m @ [k])"
  by (induction m k v rule: mapSet.induct) auto

lemma distinct_mapSet: "distinct (map fst m) \<Longrightarrow> distinct (map fst (mapSet m k v))"
  by (simp add: map_fst_mapSet)

lemma map_of_groupStep:
  "map_of (groupStep m r) =
     (map_of m)(cohort r \<mapsto> (case map_of m (cohort r) of None \<Rightarrow> [r] | Some rs \<Rightarrow> rs @ [r]))"
  by (cases "map_of m (cohort r)") (simp_all add: groupStep_def mapHas_def map_of_mapSet)

lemma distinct_groupStep: "distinct (map fst m) \<Longrightarrow> distinct (map fst (groupStep m r))"
  by (cases "map_of m (cohort r)")
     (simp_all add: groupStep_def mapHas_def map_of_mapSet distinct_mapSet)

lemma groupByCohort_snoc: "groupByCohort (rs @ [r]) = groupStep (groupByCohort rs) r"
  by (simp add: groupByCohort_def)

lemma distinct_groupByCohort: "distinct (map fst (groupByCohort rs))"
  by (induction rs rule: rev_induct)
     (simp_all add: groupByCohort_snoc distinct_groupStep, simp add: groupByCohort_def)

lemma map_of_groupByCohort:
  "map_of (groupByCohort rs) k =
     (if k \<in> cohort ` set rs then Some (filter (\<lambda>r. cohort r = k) rs) else None)"
proof (induction rs rule: rev_induct)
  case Nil
  then show ?case by (simp add: groupByCohort_def)
next
  case (snoc r rs)
  then show ?case
    by (auto simp: groupByCohort_snoc map_of_groupStep filter_empty_conv image_iff
          split: option.splits if_splits)
qed

lemma groupByCohort_entry:
  assumes "e \<in> set (groupByCohort rs)"
  shows "snd e = filter (\<lambda>r. cohort r = fst e) rs"
proof -
  from assms have "(fst e, snd e) \<in> set (groupByCohort rs)"
    by simp
  then have "map_of (groupByCohort rs) (fst e) = Some (snd e)"
    by (simp only: map_of_eq_Some_iff [OF distinct_groupByCohort])
  then show ?thesis
    by (simp add: map_of_groupByCohort split: if_splits)
qed

text \<open>
  Claim C6: for every list of results, the repository counts of the cohort summaries
  add up to the number of results and their total weights add up to the sum of the
  migration weights of the results. The summaries partition the input: no two
  summaries have the same cohort name, and the count and the total weight of a summary
  are those of the results that carry its cohort name.
\<close>

theorem summaries_partition_totals:
  "sum_list (map repositoryCount (generateCohortSummaries results)) = length results \<and>
   sum_list (map totalWeight (generateCohortSummaries results)) =
     sum_list (map migrationWeight results) \<and>
   distinct (map cohortName (generateCohortSummaries results)) \<and>
   (\<forall>s \<in> set (generateCohortSummaries results).
      repositoryCount s = length (filter (\<lambda>r. cohort r = cohortName s) results) \<and>
      totalWeight s =
        sum_list (map migrationWeight (filter (\<lambda>r. cohort r = cohortName s) results)))"
proof (intro conjI ballI)
  have "sum_list (map repositoryCount (generateCohortSummaries results)) =
        sum_list (map (\<lambda>e. sum_list (map (\<lambda>_. 1::nat) (snd e))) (groupByCohort results))"
    by (simp add: generateCohortSummaries_def sum_list_sort_key comp_def summarize_count)
  also have "\<dots> = sum_list (map (\<lambda>_. 1::nat) results)"
    by (rule total_groupByCohort)
  finally show "sum_list (map repositoryCount (generateCohortSummaries results)) = length results"
    by (simp add: sum_list_triv)
  have "sum_list (map totalWeight (generateCohortSummaries results)) =
        sum_list (map (\<lambda>e. sum_list (map migrationWeight (snd e))) (groupByCohort results))"
    by (simp add: generateCohortSummaries_def sum_list_sort_key comp_def summarize_total)
  also have "\<dots> = sum_list (map migrationWeight results)"
    by (rule total_groupByCohort)
  finally show "sum_list (map totalWeight (generateCohortSummaries results)) =
     sum_list (map migrationWeight results)" .
  have "distinct (map cohortName (map summarize (groupByCohort results)))"
    using distinct_groupByCohort [of results] by (simp add: comp_def)
  then show "distinct (map cohortName (generateCohortSummaries results))"
    by (simp only: generateCohortSummaries_def distinct_map_sort_key)
  fix s
  assume "s \<in> set (generateCohortSummaries results)"
  then obtain e where e: "e \<in> set (groupByCohort results)" and s: "s = summarize e"
    by (auto simp: generateCohortSummaries_def)
  from groupByCohort_entry [OF e]
  show "repositoryCount s = length (filter (\<lambda>r. cohort r = cohortName s) results)"
    and "totalWeight s =
      sum_list (map migrationWeight (filter (\<lambda>r. cohort r = cohortName s) results))"
    by (simp_all add: s summarize_total) (simp add: summarize_def Let_def)
qed

theorem summaries_partition_totals_witness:
  "generateCohortSummaries (analyzeRepositories CONFIG
     \<lparr> repositories = [emptyRepository, emptyRepository\<lparr>repository_webhooks := utf16 ''3''\<rparr>,
          emptyRepository\<lparr>repository_webhooks := utf16 ''3''\<rparr>] \<rparr>) =
     [\<lparr> cohortName = utf16 ''LOW_COMPLEXITY'', repositoryCount = 2, totalWeight = 20,
        averageWeight = 10 \<rparr>,
      \<lparr> cohortName = utf16 ''CLEAN'', repositoryCount = 1, totalWeight = 0, averageWeight = 0 \<rparr>] \<and>
   length (analyzeRepositories CONFIG
     \<lparr> repositories = [emptyRepository, emptyRepository\<lparr>repository_webhooks := utf16 ''3''\<rparr>,
          emptyRepository\<lparr>repository_webhooks := utf16 ''3''\<rparr>] \<rparr>) = 3 \<and>
   sum_list (map migrationWeight (analyzeRepositories CONFIG
     \<lparr> repositories = [emptyRepository, emptyRepository\<lparr>repository_webhooks := utf16 ''3''\<rparr>,
          emptyRepository\<lparr>repository_webhooks := utf16 ''3''\<rparr>] \<rparr>)) = 20 \<and>
   length (filter (\<lambda>r. cohort r = utf16 ''LOW_COMPLEXITY'') (analyzeRepositories CONFIG
     \<lparr> repositories = [emptyRepository, emptyRepository\<lparr>repository_webhooks := utf16 ''3''\<rparr>,
          emptyRepository\<lparr>repository_webhooks := utf16 ''3''\<rparr>] \<rparr>)) = 2"
proof -
  let ?X = "analyzeRepositories CONFIG
     \<lparr> repositories = [emptyRepository, emptyRepository\<lparr>repository_webhooks := utf16 ''3''\<rparr>,
          emptyRepository\<lparr>repository_webhooks := utf16 ''3''\<rparr>] \<rparr>"
  let ?low = "\<lparr> cohortName = utf16 ''LOW_COMPLEXITY'', repositoryCount = 2, totalWeight = 20,
        averageWeight = 10 \<rparr>"
  let ?clean = "\<lparr> cohortName = utf16 ''CLEAN'', repositoryCount = 1, totalWeight = 0,
        averageWeight = 0 \<rparr>"
  have g: "generateCohortSummaries ?X = [?low, ?clean]"
    by (rule example_summaries)
  note t = summaries_partition_totals [of ?X]
  from t have "sum_list (map repositoryCount (generateCohortSummaries ?X)) = length ?X"
    by (rule conjunct1)
  then have l: "length ?X = 3"
    by (simp only: g) simp
  from t have "sum_list (map totalWeight (generateCohortSummaries ?X)) =
      sum_list (map migrationWeight ?X)"
    by blast
  then have w: "sum_list (map migrationWeight ?X) = 20"
    by (simp only: g) simp
  have "?low \<in> set (generateCohortSummaries ?X)"
    by (simp only: g) simp
  with t have "repositoryCount ?low =
      length (filter (\<lambda>r. cohort r = cohortName ?low) ?X)"
    by blast
  then have f: "length (filter (\<lambda>r. cohort r = utf16 ''LOW_COMPLEXITY'') ?X) = 2"
    by simp
  from g l w f show ?thesis by blast
qed

subsection \<open>Determinism of the pipeline\<close>

text \<open>
  Claim C10: two runs of \<open>analyzeRepositories\<close> on equal configurations and equal
  record sets give equal result lists, hence equal cohort summaries. The result list
  has one row per input row, in the input order, and each row (label, weight, reasons,
  summary) is computed from the configuration and the input row at the same position
  alone: the loop carries nothing from one row to the next, and reads nothing but its
  two inputs.
\<close>

theorem analysis_deterministic:
  assumes "cfg = cfg'" and "repositories data = repositories data'"
  shows "analyzeRepositories cfg data = analyzeRepositories cfg' data' \<and>
         generateCohortSummaries (analyzeRepositories cfg data) =
           generateCohortSummaries (analyzeRepositories cfg' data') \<and>
         length (analyzeRepositories cfg data) = length (repositories data) \<and>
         (\<forall>i < length (repositories data).
            analyzeRepositories cfg data ! i = analyzeRepository cfg' (repositories data' ! i))"
  using assms by (simp add: analyzeRepositories_map)

theorem analysis_deterministic_witness:
  "analyzeRepositories CONFIG
     \<lparr> repositories = [emptyRepository, emptyRepository\<lparr>repository_webhooks := utf16 ''3''\<rparr>] \<rparr> ! 1 =
     \<lparr> repoName = [], orgName = [], enterpriseName = [], cohort = utf16 ''LOW_COMPLEXITY'',
       migrationWeight = 10, reasons = [utf16 ''Webhooks (3)''],
       summary = utf16 ''Low complexity migration (weight: 10) - 1 minor issues'',
       isArchived_flag = False \<rparr> \<and>
   length (analyzeRepositories CONFIG
     \<lparr> repositories = [emptyRepository, emptyRepository\<lparr>repository_webhooks := utf16 ''3''\<rparr>] \<rparr>) = 2"
proof -
  let ?d = "\<lparr> repositories = [emptyRepository, emptyRepository\<lparr>repository_webhooks := utf16 ''3''\<rparr>] \<rparr>"
  have "CONFIG = CONFIG" and "repositories ?d = repositories ?d"
    by simp_all
  note t = analysis_deterministic [OF this]
  from t have l: "length (analyzeRepositories CONFIG ?d) = 2"
    by simp
  from t have "\<forall>i < length (repositories ?d).
      analyzeRepositories CONFIG ?d ! i = analyzeRepository CONFIG (repositories ?d ! i)"
    by blast
  then have "analyzeRepositories CONFIG ?d ! 1 =
      analyzeRepository CONFIG (emptyRepository\<lparr>repository_webhooks := utf16 ''3''\<rparr>)"
    by simp
  with l show ?thesis
    by (simp only: example_rows)
qed

end
